theory Spec2Isabelle
  imports Main
begin

section \<open>JavaScript values\<close>

text \<open>
  The repository holds three revisions of one Node.js program:
  \<^item> \<^verbatim>\<open>src/index.js\<close> lines 1-157 (IndexNow, guarded resolver and guarded sitemap provider),
    suffix \<open>_idx1\<close>;
  \<^item> \<^verbatim>\<open>src/index.js\<close> lines 158-298 (IndexNow, no guards), suffix \<open>_idx2\<close>;
  \<^item> \<^verbatim>\<open>src/unnamed/part_000\<close> (Bing), suffix \<open>_bing\<close>.
  A function whose text is the same in several revisions is defined once.
\<close>

text \<open>The exceptions the program can meet. \<open>Error\<close> carries the message of
  \<^verbatim>\<open>new Error(...)\<close>; \<open>Rejected\<close> is a rejection coming out of a library
  (network, OAuth).\<close>

datatype js_error = TypeError | RangeError | SyntaxError | Error string | Rejected string

text \<open>What \<^verbatim>\<open>JSON.parse\<close> returns. A number is kept as the text that
  \<^verbatim>\<open>Number.prototype.toString\<close> gives for it (both zeros give \<open>0\<close>); an object is the
  list of its own properties. The JavaScript value \<^verbatim>\<open>undefined\<close> is \<open>None\<close> of
  \<open>json option\<close>.\<close>

datatype json =
    JNull
  | JBool bool
  | JNum string
  | JStr string
  | JArr "json list"
  | JObj "(string \<times> json) list"

type_synonym js_value = "json option"

text \<open>ToBoolean.\<close>

fun truthy :: "js_value \<Rightarrow> bool" where
  "truthy None = False"
| "truthy (Some JNull) = False"
| "truthy (Some (JBool b)) = b"
| "truthy (Some (JNum s)) = (s \<noteq> ''0'')"
| "truthy (Some (JStr s)) = (s \<noteq> [])"
| "truthy (Some (JArr xs)) = True"
| "truthy (Some (JObj kvs)) = True"

text \<open>Reading a property named \<open>k\<close> that no prototype defines (\<open>handle\<close>, \<open>blog\<close>,
  \<open>private_key\<close>, \<open>client_email\<close>): only an object can have it.\<close>

fun own_prop :: "json \<Rightarrow> string \<Rightarrow> js_value" where
  "own_prop (JObj kvs) k = map_of kvs k"
| "own_prop v k = None"

text \<open>\<^verbatim>\<open>v.k\<close> throws on \<^verbatim>\<open>null\<close> and \<^verbatim>\<open>undefined\<close>; \<^verbatim>\<open>v?.k\<close> gives
  \<^verbatim>\<open>undefined\<close> there.\<close>

fun get_member :: "js_value \<Rightarrow> string \<Rightarrow> js_error + js_value" where
  "get_member None k = Inl TypeError"
| "get_member (Some JNull) k = Inl TypeError"
| "get_member (Some v) k = Inr (own_prop v k)"

fun opt_member :: "js_value \<Rightarrow> string \<Rightarrow> js_value" where
  "opt_member None k = None"
| "opt_member (Some JNull) k = None"
| "opt_member (Some v) k = own_prop v k"

text \<open>ToString, as a template literal applies it. An array joins its elements with commas,
  \<^verbatim>\<open>null\<close> elements giving the empty string. An object without an own \<open>toString\<close>
  property inherits \<^verbatim>\<open>Object.prototype.toString\<close>; an own \<open>toString\<close> parsed from JSON
  is not callable, and neither \<open>valueOf\<close> then yields a primitive, so the conversion throws.\<close>

fun to_string_json :: "json \<Rightarrow> js_error + string"
  and join_json :: "json list \<Rightarrow> js_error + string"
  and elem_string :: "json \<Rightarrow> js_error + string" where
  "to_string_json JNull = Inr ''null''"
| "to_string_json (JBool b) = Inr (if b then ''true'' else ''false'')"
| "to_string_json (JNum s) = Inr s"
| "to_string_json (JStr s) = Inr s"
| "to_string_json (JArr xs) = join_json xs"
| "to_string_json (JObj kvs) =
     (if map_of kvs ''toString'' \<noteq> None then Inl TypeError else Inr ''[object Object]'')"
| "join_json [] = Inr []"
| "join_json [x] = elem_string x"
| "join_json (x # y # ys) =
     (case elem_string x of
        Inl e \<Rightarrow> Inl e
      | Inr s \<Rightarrow> (case join_json (y # ys) of Inl e \<Rightarrow> Inl e | Inr r \<Rightarrow> Inr (s @ '','' @ r)))"
| "elem_string JNull = Inr []"
| "elem_string v = to_string_json v"

fun to_string :: "js_value \<Rightarrow> js_error + string" where
  "to_string None = Inr ''undefined''"
| "to_string (Some v) = to_string_json v"

text \<open>\<^verbatim>\<open>String.prototype.startsWith\<close> and \<^verbatim>\<open>endsWith\<close>.\<close>

definition startsWith :: "string \<Rightarrow> string \<Rightarrow> bool" where
  "startsWith s p = (take (length p) s = p)"

definition endsWith :: "string \<Rightarrow> string \<Rightarrow> bool" where
  "endsWith s p = (length p \<le> length s \<and> drop (length s - length p) s = p)"

text \<open>Decimal text of a status code.\<close>

fun show_nat :: "nat \<Rightarrow> string" where
  "show_nat n =
     (if n < 10 then [char_of (48 + n)]
      else show_nat (n div 10) @ [char_of (48 + n mod 10)])"

declare show_nat.simps [simp del]


section \<open>Effects: a trace of events and an exception\<close>

datatype level = Info | Warn | Err

text \<open>The request body of the instant-submit call, before \<^verbatim>\<open>JSON.stringify\<close>:
  \<^verbatim>\<open>{host, key, keyLocation, urlList}\<close> for IndexNow, \<^verbatim>\<open>{siteUrl, urlList}\<close> for Bing.\<close>

datatype post_body =
    IndexNowBody string "string option" "string option" "string list"
  | BingBody string "string list"

text \<open>What a run does to the outside, in order. \<open>Submit_primary urls\<close> and
  \<open>Submit_secondary\<close> mark the entry into the instant-submit function (with its argument)
  and into \<^verbatim>\<open>submitSitemapToGSC\<close>. Of a log record only the level and the message are kept.\<close>

datatype event =
    Log level string
  | Submit_primary "string list"
  | Submit_secondary
  | Fetch string post_body
  | JwtAuthorize js_value js_value
  | SitemapsSubmit "string option" "string option"
  | Respond nat string

type_synonym 'a js = "event list \<times> (js_error + 'a)"

definition js_return :: "'a \<Rightarrow> 'a js" where
  "js_return x = ([], Inr x)"

definition js_throw :: "js_error \<Rightarrow> 'a js" where
  "js_throw e = ([], Inl e)"

definition emit :: "event \<Rightarrow> unit js" where
  "emit ev = ([ev], Inr ())"

definition lift :: "js_error + 'a \<Rightarrow> 'a js" where
  "lift r = ([], r)"

text \<open>Sequencing (\<^verbatim>\<open>await\<close> included): an exception skips the rest.\<close>

definition js_bind :: "'a js \<Rightarrow> ('a \<Rightarrow> 'b js) \<Rightarrow> 'b js" where
  "js_bind m f =
     (case m of
        (t, Inl e) \<Rightarrow> (t, Inl e)
      | (t, Inr x) \<Rightarrow> (case f x of (t', r) \<Rightarrow> (t @ t', r)))"

definition js_seq :: "unit js \<Rightarrow> 'b js \<Rightarrow> 'b js" where
  "js_seq m n = js_bind m (\<lambda>_. n)"

text \<open>\<^verbatim>\<open>try { m } catch (e) { h e }\<close>.\<close>

definition try_catch :: "'a js \<Rightarrow> (js_error \<Rightarrow> 'a js) \<Rightarrow> 'a js" where
  "try_catch m h =
     (case m of
        (t, Inl e) \<Rightarrow> (case h e of (t', r) \<Rightarrow> (t @ t', r))
      | (t, Inr x) \<Rightarrow> (t, Inr x))"

definition trace :: "'a js \<Rightarrow> event list" where
  "trace m = fst m"

definition outcome :: "'a js \<Rightarrow> js_error + 'a" where
  "outcome m = snd m"

text \<open>The HTTP responses sent during a run, and whether a provider function was entered.\<close>

fun responses :: "event list \<Rightarrow> (nat \<times> string) list" where
  "responses [] = []"
| "responses (Respond s b # t) = (s, b) # responses t"
| "responses (ev # t) = responses t"

fun batches :: "event list \<Rightarrow> string list list" where
  "batches [] = []"
| "batches (Submit_primary urls # t) = urls # batches t"
| "batches (ev # t) = batches t"

definition secondary_invoked :: "event list \<Rightarrow> bool" where
  "secondary_invoked t = (Submit_secondary \<in> set t)"

section \<open>Configuration, request and the outside world\<close>

text \<open>\<^verbatim>\<open>process.env\<close>: each variable is a string or absent.\<close>

record env =
  SHOPIFY_WEBHOOK_SECRET :: "string option"
  INDEXNOW_KEY :: "string option"
  INDEXNOW_KEY_URL :: "string option"
  BING_API_KEY :: "string option"
  GSC_SITE_URL :: "string option"
  GSC_SITEMAP_URL :: "string option"
  GOOGLE_CREDENTIALS_JSON :: "string option"

text \<open>\<^verbatim>\<open>req.body\<close> behind \<^verbatim>\<open>express.raw({ type: "*/*" })\<close>: a Buffer of the raw bytes,
  or, when the middleware did not read the request (no body, or no Content-Type header),
  the empty object it leaves in place, which is not a Buffer.\<close>

datatype raw_body = Buffer string | Unparsed

text \<open>The parts of the request the handler reads: the two headers (\<^verbatim>\<open>req.get\<close> gives
  \<^verbatim>\<open>undefined\<close> for an absent one) and the body.\<close>

record request =
  hmac_header :: "string option"
  topic_header :: "string option"
  body :: raw_body

datatype fetch_outcome = NetworkFailure string | Response nat string

text \<open>The libraries and services the program calls, as parameters: the HMAC-SHA256 of a body
  under a key in base64 (\<^verbatim>\<open>crypto\<close>), \<^verbatim>\<open>JSON.parse\<close> (\<open>None\<close> for a SyntaxError),
  the answer to a POST (\<^verbatim>\<open>node-fetch\<close>), and the two calls of \<^verbatim>\<open>googleapis\<close>
  (\<open>None\<close> for success).\<close>

record world =
  hmac_sha256_base64 :: "string \<Rightarrow> string \<Rightarrow> string"
  json_parse :: "string \<Rightarrow> json option"
  fetch :: "string \<Rightarrow> post_body \<Rightarrow> fetch_outcome"
  jwt_authorize :: "js_value \<Rightarrow> js_value \<Rightarrow> js_error option"
  sitemaps_submit :: "string option \<Rightarrow> string option \<Rightarrow> js_error option"

text \<open>\<^verbatim>\<open>res.ok\<close>.\<close>

definition ok :: "nat \<Rightarrow> bool" where
  "ok status = (200 \<le> status \<and> status \<le> 299)"

text \<open>A variable or header is falsy when absent or empty.\<close>

definition falsy :: "string option \<Rightarrow> bool" where
  "falsy v = (v = None \<or> v = Some [])"

section \<open>Signature verifier\<close>

text \<open>\<^verbatim>\<open>Buffer.from(s)\<close>: the UTF-8 bytes of a string of code units below 256.\<close>

definition utf8 :: "char \<Rightarrow> nat list" where
  "utf8 c =
     (if of_char c < (128::nat) then [of_char c]
      else [192 + of_char c div 64, 128 + of_char c mod 64])"

definition buffer_from :: "string \<Rightarrow> nat list" where
  "buffer_from s = concat (map utf8 s)"

text \<open>\<^verbatim>\<open>crypto.timingSafeEqual\<close> throws a RangeError on buffers of different byte length.\<close>

definition timingSafeEqual :: "nat list \<Rightarrow> nat list \<Rightarrow> js_error + bool" where
  "timingSafeEqual a b = (if length a \<noteq> length b then Inl RangeError else Inr (a = b))"

text \<open>\<^verbatim>\<open>crypto.createHmac("sha256", key).update(data, "utf8").digest("base64")\<close>:
  \<^verbatim>\<open>createHmac\<close> throws a TypeError on an \<^verbatim>\<open>undefined\<close> key, and then
  \<^verbatim>\<open>update\<close> throws a TypeError on data that is neither a string nor a Buffer.\<close>

definition createHmac_digest :: "world \<Rightarrow> string option \<Rightarrow> raw_body \<Rightarrow> js_error + string" where
  "createHmac_digest w key data =
     (case key of
        None \<Rightarrow> Inl TypeError
      | Some k \<Rightarrow>
          (case data of
             Unparsed \<Rightarrow> Inl TypeError
           | Buffer bytes \<Rightarrow> Inr (hmac_sha256_base64 w k bytes)))"

text \<open>\<^verbatim>\<open>src/index.js\<close> lines 30-38 and 187-195 (the same text).\<close>

definition verifyShopifyHmac_idx :: "world \<Rightarrow> env \<Rightarrow> request \<Rightarrow> js_error + bool" where
  "verifyShopifyHmac_idx w cfg req =
     (case hmac_header req of
        None \<Rightarrow> Inr False
      | Some hmac \<Rightarrow>
          if hmac = [] then Inr False
          else case createHmac_digest w (SHOPIFY_WEBHOOK_SECRET cfg) (body req) of
                 Inl e \<Rightarrow> Inl e
               | Inr digest \<Rightarrow> timingSafeEqual (buffer_from digest) (buffer_from hmac))"

text \<open>\<^verbatim>\<open>src/unnamed/part_000\<close> lines 43-54.\<close>

definition verifyShopifyHmac_bing :: "world \<Rightarrow> env \<Rightarrow> request \<Rightarrow> js_error + bool" where
  "verifyShopifyHmac_bing w cfg req =
     (case hmac_header req of
        None \<Rightarrow> Inr False
      | Some hmacHeader \<Rightarrow>
          if hmacHeader = [] \<or> falsy (SHOPIFY_WEBHOOK_SECRET cfg) then Inr False
          else case createHmac_digest w (SHOPIFY_WEBHOOK_SECRET cfg) (body req) of
                 Inl e \<Rightarrow> Inl e
               | Inr digest \<Rightarrow>
                   (case timingSafeEqual (buffer_from digest) (buffer_from hmacHeader) of
                      Inl e \<Rightarrow> Inr False
                    | Inr b \<Rightarrow> Inr b))"

section \<open>URL resolver\<close>

definition host :: string where
  "host = ''https://titandepot.co.uk''"

text \<open>\<^verbatim>\<open>cond ? `${pre}${v}` : null\<close> on a value \<open>v\<close> tested for truthiness.\<close>

definition url_if_handle :: "string \<Rightarrow> js_value \<Rightarrow> js_error + string option" where
  "url_if_handle pre h =
     (if truthy h
      then (case to_string h of Inl e \<Rightarrow> Inl e | Inr s \<Rightarrow> Inr (Some (pre @ s)))
      else Inr None)"

text \<open>\<^verbatim>\<open>src/index.js\<close> lines 41-58 and \<^verbatim>\<open>src/unnamed/part_000\<close> lines 56-77
  (\<^verbatim>\<open>getHostBase()\<close> there is the same constant).\<close>

definition buildPublicUrl :: "string \<Rightarrow> js_value \<Rightarrow> js_error + string option" where
  "buildPublicUrl topic payload =
     (let isDelete = endsWith topic ''delete'' in
      if startsWith topic ''products/'' then
        (if isDelete then Inr None
         else url_if_handle (host @ ''/products/'') (opt_member payload ''handle''))
      else if startsWith topic ''collections/'' then
        (if isDelete then Inr None
         else url_if_handle (host @ ''/collections/'') (opt_member payload ''handle''))
      else if startsWith topic ''articles/'' then
        (if isDelete then Inr None
         else
           let b = opt_member (opt_member payload ''blog'') ''handle'';
               blogHandle = (if truthy b then b else Some (JStr ''news''))
           in if truthy (opt_member payload ''handle'')
              then (case to_string blogHandle of
                      Inl e \<Rightarrow> Inl e
                    | Inr bs \<Rightarrow>
                        (case to_string (opt_member payload ''handle'') of
                           Inl e \<Rightarrow> Inl e
                         | Inr hs \<Rightarrow> Inr (Some (host @ ''/blogs/'' @ bs @ ''/'' @ hs))))
              else Inr None)
      else Inr None)"

text \<open>\<^verbatim>\<open>src/index.js\<close> lines 198-207: no deletion test, \<^verbatim>\<open>payload.handle\<close> read
  without \<^verbatim>\<open>?.\<close> and without a truthiness test.\<close>

definition buildPublicUrl_idx2 :: "string \<Rightarrow> js_value \<Rightarrow> js_error + string option" where
  "buildPublicUrl_idx2 topic payload =
     (if startsWith topic ''products/'' then
        (case get_member payload ''handle'' of
           Inl e \<Rightarrow> Inl e
         | Inr h \<Rightarrow> (case to_string h of
                      Inl e \<Rightarrow> Inl e
                    | Inr s \<Rightarrow> Inr (Some (host @ ''/products/'' @ s))))
      else if startsWith topic ''collections/'' then
        (case get_member payload ''handle'' of
           Inl e \<Rightarrow> Inl e
         | Inr h \<Rightarrow> (case to_string h of
                      Inl e \<Rightarrow> Inl e
                    | Inr s \<Rightarrow> Inr (Some (host @ ''/collections/'' @ s))))
      else if startsWith topic ''articles/'' then
        (case get_member payload ''blog'' of
           Inl e \<Rightarrow> Inl e
         | Inr bl \<Rightarrow>
             let b = opt_member bl ''handle'';
                 blogHandle = (if truthy b then b else Some (JStr ''news''))
             in (case to_string blogHandle of
                   Inl e \<Rightarrow> Inl e
                 | Inr bs \<Rightarrow>
                     (case get_member payload ''handle'' of
                        Inl e \<Rightarrow> Inl e
                      | Inr h \<Rightarrow>
                          (case to_string h of
                             Inl e \<Rightarrow> Inl e
                           | Inr hs \<Rightarrow> Inr (Some (host @ ''/blogs/'' @ bs @ ''/'' @ hs))))))
      else Inr None)"


section \<open>Provider submitters\<close>

definition indexnow_endpoint :: string where
  "indexnow_endpoint = ''https://api.indexnow.org/indexnow''"

text \<open>\<^verbatim>\<open>src/index.js\<close> lines 62-78. \<open>urls\<close> is an array at every call, so
  \<^verbatim>\<open>Array.isArray(urls) ? urls : [urls]\<close> is \<open>urls\<close>.\<close>

definition submitIndexNow_idx1 :: "world \<Rightarrow> env \<Rightarrow> string list \<Rightarrow> unit js" where
  "submitIndexNow_idx1 w cfg urls =
     js_seq (emit (Submit_primary urls))
       (let body = IndexNowBody ''titandepot.co.uk'' (INDEXNOW_KEY cfg) (INDEXNOW_KEY_URL cfg) urls in
        js_seq (emit (Fetch indexnow_endpoint body))
          (case fetch w indexnow_endpoint body of
             NetworkFailure m \<Rightarrow> js_throw (Rejected m)
           | Response status text \<Rightarrow>
               if \<not> ok status
               then js_throw (Error (''IndexNow '' @ show_nat status @ '': '' @ text))
               else emit (Log Info ''IndexNow submit OK'')))"

text \<open>\<^verbatim>\<open>src/index.js\<close> lines 210-227.\<close>

definition submitIndexNow_idx2 :: "world \<Rightarrow> env \<Rightarrow> string list \<Rightarrow> bool js" where
  "submitIndexNow_idx2 w cfg urls =
     js_seq (emit (Submit_primary urls))
       (let body = IndexNowBody ''titandepot.co.uk'' (INDEXNOW_KEY cfg) (INDEXNOW_KEY_URL cfg) urls in
        js_seq (emit (Fetch indexnow_endpoint body))
          (case fetch w indexnow_endpoint body of
             NetworkFailure m \<Rightarrow> js_throw (Rejected m)
           | Response status text \<Rightarrow>
               if \<not> ok status
               then js_throw (Error (''IndexNow failed '' @ show_nat status @ '': '' @ text))
               else js_return True))"

text \<open>\<^verbatim>\<open>src/unnamed/part_000\<close> lines 82-109.\<close>

definition submitToBing :: "world \<Rightarrow> env \<Rightarrow> string list \<Rightarrow> unit js" where
  "submitToBing w cfg urls =
     js_seq (emit (Submit_primary urls))
       (case BING_API_KEY cfg of
          None \<Rightarrow> emit (Log Warn ''BING_API_KEY missing; skipping Bing submit.'')
        | Some key \<Rightarrow>
            if key = [] then emit (Log Warn ''BING_API_KEY missing; skipping Bing submit.'')
            else
              let body = BingBody (host @ ''/'') urls;
                  endpoint = ''https://ssl.bing.com/webmaster/api.svc/json/SubmitUrlbatch?apikey='' @ key
              in js_seq (emit (Fetch endpoint body))
                   (case fetch w endpoint body of
                      NetworkFailure m \<Rightarrow> js_throw (Rejected m)
                    | Response status txt \<Rightarrow>
                        if \<not> ok status
                        then js_throw (Error (''Bing submit '' @ show_nat status @ '': '' @ txt))
                        else emit (Log Info ''Bing submit OK'')))"

text \<open>\<^verbatim>\<open>.replace(/\\n/g, "\n")\<close>: every backslash followed by \<open>n\<close> becomes a line feed.\<close>

fun normalize_newlines :: "string \<Rightarrow> string" where
  "normalize_newlines (a # b # s) =
     (if a = CHR 0x5C \<and> b = CHR ''n'' then CHR 0x0A # normalize_newlines s
      else a # normalize_newlines (b # s))"
| "normalize_newlines s = s"

text \<open>\<^verbatim>\<open>(creds.private_key || "").replace(...)\<close>: reading a property of \<^verbatim>\<open>null\<close> throws,
  and so does calling \<^verbatim>\<open>replace\<close> on a truthy value that is not a string.\<close>

definition normalizedKey :: "json \<Rightarrow> js_error + string" where
  "normalizedKey creds =
     (case get_member (Some creds) ''private_key'' of
        Inl e \<Rightarrow> Inl e
      | Inr pk \<Rightarrow>
          if truthy pk
          then (case pk of Some (JStr s) \<Rightarrow> Inr (normalize_newlines s) | _ \<Rightarrow> Inl TypeError)
          else Inr [])"

text \<open>\<^verbatim>\<open>jwt.authorize()\<close> and \<^verbatim>\<open>webmasters.sitemaps.submit(...)\<close>, then the closing log line.\<close>

definition gsc_calls ::
  "world \<Rightarrow> js_value \<Rightarrow> js_value \<Rightarrow> string option \<Rightarrow> string option \<Rightarrow> string \<Rightarrow> unit js" where
  "gsc_calls w email key siteUrl feedpath done_msg =
     js_seq (emit (JwtAuthorize email key))
       (case jwt_authorize w email key of
          Some e \<Rightarrow> js_throw e
        | None \<Rightarrow>
            js_seq (emit (SitemapsSubmit siteUrl feedpath))
              (case sitemaps_submit w siteUrl feedpath of
                 Some e \<Rightarrow> js_throw e
               | None \<Rightarrow> emit (Log Info done_msg)))"

text \<open>\<^verbatim>\<open>src/index.js\<close> lines 82-104 and \<^verbatim>\<open>src/unnamed/part_000\<close> lines 114-140: the
  same text; the site URL and the sitemap path are the module's constants, passed here.\<close>

definition submitSitemapToGSC_guarded ::
  "world \<Rightarrow> string option \<Rightarrow> string option \<Rightarrow> string option \<Rightarrow> unit js" where
  "submitSitemapToGSC_guarded w credentials siteUrl feedpath =
     js_seq (emit Submit_secondary)
       (case credentials of
          None \<Rightarrow> emit (Log Warn ''GOOGLE_CREDENTIALS_JSON not set; skipping GSC sitemap submit.'')
        | Some text \<Rightarrow>
            if text = []
            then emit (Log Warn ''GOOGLE_CREDENTIALS_JSON not set; skipping GSC sitemap submit.'')
            else (case json_parse w text of
                    None \<Rightarrow> js_throw SyntaxError
                  | Some creds \<Rightarrow>
                      js_bind (lift (normalizedKey creds)) (\<lambda>key.
                      js_bind (lift (get_member (Some creds) ''client_email'')) (\<lambda>email.
                        gsc_calls w email (Some (JStr key)) siteUrl feedpath
                          ''GSC sitemap submitted OK''))))"

definition submitSitemapToGSC_idx1 :: "world \<Rightarrow> env \<Rightarrow> unit js" where
  "submitSitemapToGSC_idx1 w cfg =
     submitSitemapToGSC_guarded w (GOOGLE_CREDENTIALS_JSON cfg) (GSC_SITE_URL cfg)
       (GSC_SITEMAP_URL cfg)"

text \<open>In \<^verbatim>\<open>part_000\<close> (lines 16-17) the two variables have defaults, used when absent.\<close>

definition with_default :: "string \<Rightarrow> string option \<Rightarrow> string option" where
  "with_default d v = (case v of None \<Rightarrow> Some d | Some x \<Rightarrow> Some x)"

definition submitSitemapToGSC_bing :: "world \<Rightarrow> env \<Rightarrow> unit js" where
  "submitSitemapToGSC_bing w cfg =
     submitSitemapToGSC_guarded w (GOOGLE_CREDENTIALS_JSON cfg)
       (with_default ''https://titandepot.co.uk/'' (GSC_SITE_URL cfg))
       (with_default ''https://titandepot.co.uk/sitemap.xml'' (GSC_SITEMAP_URL cfg))"

text \<open>\<^verbatim>\<open>src/index.js\<close> lines 230-246: no test of the credential.
  \<^verbatim>\<open>JSON.parse(undefined)\<close> parses the text \<open>undefined\<close>, which is not JSON: a SyntaxError.\<close>

definition submitSitemapToGSC_idx2 :: "world \<Rightarrow> env \<Rightarrow> unit js" where
  "submitSitemapToGSC_idx2 w cfg =
     js_seq (emit Submit_secondary)
       (case GOOGLE_CREDENTIALS_JSON cfg of
          None \<Rightarrow> js_throw SyntaxError
        | Some text \<Rightarrow>
            (case json_parse w text of
               None \<Rightarrow> js_throw SyntaxError
             | Some creds \<Rightarrow>
                 js_bind (lift (get_member (Some creds) ''client_email'')) (\<lambda>email.
                 js_bind (lift (get_member (Some creds) ''private_key'')) (\<lambda>key.
                   gsc_calls w email key (GSC_SITE_URL cfg) (GSC_SITEMAP_URL cfg)
                     ''Sitemap submitted to Google Search Console''))))"

section \<open>Webhook handler\<close>

definition root_url :: string where
  "root_url = ''https://titandepot.co.uk/''"

definition all_url :: string where
  "all_url = ''https://titandepot.co.uk/collections/all''"

definition sitemap_url :: string where
  "sitemap_url = ''https://titandepot.co.uk/sitemap.xml''"

text \<open>\<^verbatim>\<open>req.get("x-shopify-topic") || ""\<close>.\<close>

definition topic_of :: "request \<Rightarrow> string" where
  "topic_of req = (case topic_header req of None \<Rightarrow> [] | Some t \<Rightarrow> t)"

text \<open>\<^verbatim>\<open>JSON.parse(req.body.toString("utf8"))\<close>. The text of the empty object left by the
  middleware is \<^verbatim>\<open>[object Object]\<close>, which is not JSON.\<close>

definition parse_body :: "world \<Rightarrow> request \<Rightarrow> js_error + json" where
  "parse_body w req =
     (case body req of
        Unparsed \<Rightarrow> Inl SyntaxError
      | Buffer bytes \<Rightarrow>
          (case json_parse w bytes of None \<Rightarrow> Inl SyntaxError | Some v \<Rightarrow> Inr v))"

text \<open>\<^verbatim>\<open>const urls = []; if (url) urls.push(url); urls.push(root); urls.push(all)\<close>.\<close>

definition build_urls :: "string option \<Rightarrow> string list" where
  "build_urls url =
     (case url of None \<Rightarrow> [] | Some u \<Rightarrow> if u = [] then [] else [u]) @ [root_url, all_url]"

text \<open>The condition of the secondary submission.\<close>

definition wants_sitemap :: "string \<Rightarrow> bool" where
  "wants_sitemap topic = (endsWith topic ''create'' \<or> startsWith topic ''collections/'')"

text \<open>\<^verbatim>\<open>catch (err) { log.error(err, "Webhook error"); res.status(500).send("ERROR"); }\<close>.\<close>

definition webhook_catch :: "js_error \<Rightarrow> unit js" where
  "webhook_catch err = js_seq (emit (Log Err ''Webhook error'')) (emit (Respond 500 ''ERROR''))"

text \<open>\<^verbatim>\<open>src/index.js\<close> lines 108-132.\<close>

definition webhook_idx1 :: "world \<Rightarrow> env \<Rightarrow> request \<Rightarrow> unit js" where
  "webhook_idx1 w cfg req =
     try_catch
       (js_bind (lift (verifyShopifyHmac_idx w cfg req)) (\<lambda>verified.
          if \<not> verified then emit (Respond 401 ''Invalid HMAC'')
          else
            let topic = topic_of req in
            js_bind (lift (parse_body w req)) (\<lambda>payload.
            js_bind (lift (buildPublicUrl topic (Some payload))) (\<lambda>url.
            let urls = build_urls url in
            js_seq (submitIndexNow_idx1 w cfg urls)
              (js_seq (if wants_sitemap topic then submitSitemapToGSC_idx1 w cfg else js_return ())
                 (js_seq (emit (Log Info ''Indexed''))
                    (emit (Respond 200 ''OK'')))))))) 
       webhook_catch"

text \<open>\<^verbatim>\<open>src/index.js\<close> lines 249-273.\<close>

definition webhook_idx2 :: "world \<Rightarrow> env \<Rightarrow> request \<Rightarrow> unit js" where
  "webhook_idx2 w cfg req =
     try_catch
       (js_bind (lift (verifyShopifyHmac_idx w cfg req)) (\<lambda>verified.
          if \<not> verified then emit (Respond 401 ''Invalid HMAC'')
          else
            let topic = topic_of req in
            js_bind (lift (parse_body w req)) (\<lambda>payload.
            js_bind (lift (buildPublicUrl_idx2 topic (Some payload))) (\<lambda>url.
            let urls = build_urls url in
            js_bind (submitIndexNow_idx2 w cfg urls) (\<lambda>_.
              js_seq (if wants_sitemap topic then submitSitemapToGSC_idx2 w cfg else js_return ())
                 (js_seq (emit (Log Info ''Indexed''))
                    (emit (Respond 200 ''OK'')))))))) 
       webhook_catch"

text \<open>\<^verbatim>\<open>src/unnamed/part_000\<close> lines 145-177: the secondary call has its own
  \<^verbatim>\<open>try/catch\<close>.\<close>

definition webhook_bing :: "world \<Rightarrow> env \<Rightarrow> request \<Rightarrow> unit js" where
  "webhook_bing w cfg req =
     try_catch
       (js_bind (lift (verifyShopifyHmac_bing w cfg req)) (\<lambda>verified.
          if \<not> verified
          then js_seq (emit (Log Warn ''Invalid Shopify HMAC'')) (emit (Respond 401 ''Invalid HMAC''))
          else
            let topic = topic_of req in
            js_bind (lift (parse_body w req)) (\<lambda>payload.
            js_bind (lift (buildPublicUrl topic (Some payload))) (\<lambda>singleUrl.
            let urls = build_urls singleUrl in
            js_seq (submitToBing w cfg urls)
              (js_seq (if wants_sitemap topic
                       then try_catch (submitSitemapToGSC_bing w cfg)
                              (\<lambda>e. emit (Log Warn ''GSC submit warning''))
                       else js_return ())
                 (js_seq (emit (Log Info ''Webhook processed''))
                    (emit (Respond 200 ''OK'')))))))) 
       webhook_catch"

section \<open>Daily job\<close>

text \<open>\<^verbatim>\<open>src/index.js\<close> lines 135-152.\<close>

definition daily_job_idx1 :: "world \<Rightarrow> env \<Rightarrow> unit js" where
  "daily_job_idx1 w cfg =
     try_catch
       (js_seq (submitIndexNow_idx1 w cfg [root_url, sitemap_url])
          (js_seq (submitSitemapToGSC_idx1 w cfg)
             (emit (Log Info ''Daily health submit complete''))))
       (\<lambda>e. emit (Log Err ''Daily job failed''))"

text \<open>\<^verbatim>\<open>src/index.js\<close> lines 276-293.\<close>

definition daily_job_idx2 :: "world \<Rightarrow> env \<Rightarrow> unit js" where
  "daily_job_idx2 w cfg =
     try_catch
       (js_bind (submitIndexNow_idx2 w cfg [root_url, sitemap_url]) (\<lambda>_.
          js_seq (submitSitemapToGSC_idx2 w cfg)
             (emit (Log Info ''Daily health submit complete''))))
       (\<lambda>e. emit (Log Err ''Daily job failed''))"

text \<open>\<^verbatim>\<open>src/unnamed/part_000\<close> lines 180-197.\<close>

definition daily_job_bing :: "world \<Rightarrow> env \<Rightarrow> unit js" where
  "daily_job_bing w cfg =
     try_catch
       (js_seq (submitToBing w cfg [root_url, sitemap_url])
          (js_seq (submitSitemapToGSC_bing w cfg)
             (emit (Log Info ''Daily health submit complete''))))
       (\<lambda>e. emit (Log Err ''Daily job failed''))"


section \<open>The three revisions side by side\<close>

datatype revision = Idx1 | Idx2 | Bing

fun verify :: "revision \<Rightarrow> world \<Rightarrow> env \<Rightarrow> request \<Rightarrow> js_error + bool" where
  "verify Idx1 = verifyShopifyHmac_idx"
| "verify Idx2 = verifyShopifyHmac_idx"
| "verify Bing = verifyShopifyHmac_bing"

fun resolve :: "revision \<Rightarrow> string \<Rightarrow> js_value \<Rightarrow> js_error + string option" where
  "resolve Idx1 = buildPublicUrl"
| "resolve Idx2 = buildPublicUrl_idx2"
| "resolve Bing = buildPublicUrl"

text \<open>Whether the instant-submit function returns (rather than throws) on a batch.\<close>

fun primary_ok :: "revision \<Rightarrow> world \<Rightarrow> env \<Rightarrow> string list \<Rightarrow> bool" where
  "primary_ok Idx1 w cfg urls = (outcome (submitIndexNow_idx1 w cfg urls) = Inr ())"
| "primary_ok Idx2 w cfg urls = (outcome (submitIndexNow_idx2 w cfg urls) = Inr True)"
| "primary_ok Bing w cfg urls = (outcome (submitToBing w cfg urls) = Inr ())"

fun submit_secondary :: "revision \<Rightarrow> world \<Rightarrow> env \<Rightarrow> unit js" where
  "submit_secondary Idx1 = submitSitemapToGSC_idx1"
| "submit_secondary Idx2 = submitSitemapToGSC_idx2"
| "submit_secondary Bing = submitSitemapToGSC_bing"

fun webhook :: "revision \<Rightarrow> world \<Rightarrow> env \<Rightarrow> request \<Rightarrow> unit js" where
  "webhook Idx1 = webhook_idx1"
| "webhook Idx2 = webhook_idx2"
| "webhook Bing = webhook_bing"

fun daily_job :: "revision \<Rightarrow> world \<Rightarrow> env \<Rightarrow> unit js" where
  "daily_job Idx1 = daily_job_idx1"
| "daily_job Idx2 = daily_job_idx2"
| "daily_job Bing = daily_job_bing"

section \<open>A concrete deployment for evaluation\<close>

text \<open>A world for running the handlers on explicit inputs: a fixed digest, a parser that
  knows four bodies, and the given answers of the instant-submit endpoint and of the sitemap
  API.\<close>

definition sample_parse :: "string \<Rightarrow> json option" where
  "sample_parse s =
     (if s = ''{}'' then Some (JObj [])
      else if s = ''null'' then Some JNull
      else if s = ''{\"handle\":\"widget\"}'' then Some (JObj [(''handle'', JStr ''widget'')])
      else if s = ''{\"handle\":\"all\"}'' then Some (JObj [(''handle'', JStr ''all'')])
      else None)"

definition sample_digest :: string where
  "sample_digest = ''3q2+796tvu/erb7v3q2+796tvu/erb7v3q2+796tvu8=''"

definition sample_world :: "fetch_outcome \<Rightarrow> js_error option \<Rightarrow> world" where
  "sample_world answer gsc =
     \<lparr> hmac_sha256_base64 = (\<lambda>key data. sample_digest),
       json_parse = sample_parse,
       fetch = (\<lambda>endpoint b. answer),
       jwt_authorize = (\<lambda>email key. None),
       sitemaps_submit = (\<lambda>siteUrl feedpath. gsc) \<rparr>"

definition sample_env :: "string option \<Rightarrow> env" where
  "sample_env credentials =
     \<lparr> SHOPIFY_WEBHOOK_SECRET = Some ''shpss'',
       INDEXNOW_KEY = Some ''key'',
       INDEXNOW_KEY_URL = Some ''https://titandepot.co.uk/key.txt'',
       BING_API_KEY = Some ''key'',
       GSC_SITE_URL = Some ''https://titandepot.co.uk/'',
       GSC_SITEMAP_URL = Some ''https://titandepot.co.uk/sitemap.xml'',
       GOOGLE_CREDENTIALS_JSON = credentials \<rparr>"

definition sample_request :: "string option \<Rightarrow> string \<Rightarrow> request" where
  "sample_request topic text =
     \<lparr> hmac_header = Some sample_digest, topic_header = topic, body = Buffer text \<rparr>"


definition world_ok :: world where
  "world_ok = sample_world (Response 200 ''ok'') None"

definition world_primary_down :: world where
  "world_primary_down = sample_world (Response 503 ''busy'') None"

definition world_gsc_down :: world where
  "world_gsc_down = sample_world (Response 200 ''ok'') (Some (Rejected ''quota''))"

definition env_google :: env where
  "env_google = sample_env (Some ''{}'')"

definition env_no_google :: env where
  "env_no_google = sample_env None"

definition created_widget :: request where
  "created_widget = sample_request (Some ''products/create'') ''{\"handle\":\"widget\"}''"

definition updated_collection_all :: request where
  "updated_collection_all = sample_request (Some ''collections/update'') ''{\"handle\":\"all\"}''"

definition event_without_topic :: request where
  "event_without_topic = sample_request None ''{}''"

definition short_signature :: request where
  "short_signature =
     \<lparr> hmac_header = Some ''abc'', topic_header = Some ''products/create'',
       body = Buffer ''{\"handle\":\"widget\"}'' \<rparr>"

definition null_product_update :: request where
  "null_product_update = sample_request (Some ''products/update'') ''null''"

definition unparsed_request :: request where
  "unparsed_request =
     \<lparr> hmac_header = Some sample_digest, topic_header = Some ''products/create'',
       body = Unparsed \<rparr>"

section \<open>Reading runs\<close>

lemma trace_pair [simp]: "trace (t, r) = t"
  by (simp add: trace_def)

lemma outcome_pair [simp]: "outcome (t, r) = r"
  by (simp add: outcome_def)

lemma trace_return [simp]: "trace (js_return x) = []"
  by (simp add: js_return_def)

lemma outcome_return [simp]: "outcome (js_return x) = Inr x"
  by (simp add: js_return_def)

lemma trace_throw [simp]: "trace (js_throw e) = []"
  by (simp add: js_throw_def)

lemma outcome_throw [simp]: "outcome (js_throw e) = Inl e"
  by (simp add: js_throw_def)

lemma trace_emit [simp]: "trace (emit ev) = [ev]"
  by (simp add: emit_def)

lemma outcome_emit [simp]: "outcome (emit ev) = Inr ()"
  by (simp add: emit_def)

lemma trace_lift [simp]: "trace (lift r) = []"
  by (simp add: lift_def)

lemma outcome_lift [simp]: "outcome (lift r) = r"
  by (simp add: lift_def)

lemma trace_bind:
  "trace (js_bind m f) = (case outcome m of Inl e \<Rightarrow> trace m | Inr x \<Rightarrow> trace m @ trace (f x))"
  by (cases m) (auto simp: js_bind_def trace_def outcome_def split: sum.splits prod.splits)

lemma outcome_bind:
  "outcome (js_bind m f) = (case outcome m of Inl e \<Rightarrow> Inl e | Inr x \<Rightarrow> outcome (f x))"
  by (cases m) (auto simp: js_bind_def trace_def outcome_def split: sum.splits prod.splits)

lemma trace_seq:
  "trace (js_seq m n) = (case outcome m of Inl e \<Rightarrow> trace m | Inr x \<Rightarrow> trace m @ trace n)"
  by (simp add: js_seq_def trace_bind)

lemma outcome_seq:
  "outcome (js_seq m n) = (case outcome m of Inl e \<Rightarrow> Inl e | Inr x \<Rightarrow> outcome n)"
  by (simp add: js_seq_def outcome_bind)

lemma trace_try_catch:
  "trace (try_catch m h) =
     (case outcome m of Inl e \<Rightarrow> trace m @ trace (h e) | Inr x \<Rightarrow> trace m)"
  by (cases m) (auto simp: try_catch_def trace_def outcome_def split: sum.splits prod.splits)

lemma outcome_try_catch:
  "outcome (try_catch m h) = (case outcome m of Inl e \<Rightarrow> outcome (h e) | Inr x \<Rightarrow> Inr x)"
  by (cases m) (auto simp: try_catch_def trace_def outcome_def split: sum.splits prod.splits)

lemmas js_simps =
  trace_bind outcome_bind trace_seq outcome_seq trace_try_catch outcome_try_catch

lemma unit_outcome: "(outcome (m :: unit js) = Inr ()) = (\<forall>e. outcome m \<noteq> Inl e)"
  by (cases "outcome m") auto

lemma responses_append [simp]: "responses (a @ b) = responses a @ responses b"
  by (induction a rule: responses.induct) auto

lemma batches_append [simp]: "batches (a @ b) = batches a @ batches b"
  by (induction a rule: batches.induct) auto

lemma secondary_invoked_Nil [simp]: "secondary_invoked [] = False"
  by (simp add: secondary_invoked_def)

lemma secondary_invoked_Cons [simp]:
  "secondary_invoked (ev # t) = (ev = Submit_secondary \<or> secondary_invoked t)"
  by (auto simp: secondary_invoked_def)

lemma secondary_invoked_append [simp]:
  "secondary_invoked (a @ b) = (secondary_invoked a \<or> secondary_invoked b)"
  by (auto simp: secondary_invoked_def)

lemma startsWith_Nil [simp]: "startsWith [] (c # p) = False"
  by (simp add: startsWith_def)

lemma endsWith_Nil [simp]: "endsWith [] (c # p) = False"
  by (simp add: endsWith_def)

text \<open>Unfolding everything, to run a handler on explicit inputs.\<close>

lemmas webhook_defs = webhook_idx1_def webhook_idx2_def webhook_bing_def webhook_catch_def

lemmas daily_defs = daily_job_idx1_def daily_job_idx2_def daily_job_bing_def

lemmas run_defs = webhook_defs daily_defs js_simps Let_def
  verifyShopifyHmac_idx_def verifyShopifyHmac_bing_def createHmac_digest_def timingSafeEqual_def
  falsy_def parse_body_def topic_of_def endsWith_def startsWith_def wants_sitemap_def
  buildPublicUrl_def buildPublicUrl_idx2_def url_if_handle_def host_def build_urls_def
  root_url_def all_url_def sitemap_url_def
  submitIndexNow_idx1_def submitIndexNow_idx2_def submitToBing_def indexnow_endpoint_def ok_def
  submitSitemapToGSC_guarded_def submitSitemapToGSC_idx1_def submitSitemapToGSC_bing_def
  submitSitemapToGSC_idx2_def normalizedKey_def gsc_calls_def with_default_def
  sample_world_def sample_env_def sample_request_def sample_parse_def sample_digest_def
  world_ok_def world_primary_down_def world_gsc_down_def env_google_def
  created_widget_def event_without_topic_def buffer_from_def utf8_def

section \<open>What the providers leave in the trace\<close>

lemma submitIndexNow_idx1_trace:
  "batches (trace (submitIndexNow_idx1 w cfg urls)) = [urls]"
  "responses (trace (submitIndexNow_idx1 w cfg urls)) = []"
  "secondary_invoked (trace (submitIndexNow_idx1 w cfg urls)) = False"
  by (simp_all add: submitIndexNow_idx1_def js_simps Let_def
        split: fetch_outcome.splits sum.splits)

lemma submitIndexNow_idx2_trace:
  "batches (trace (submitIndexNow_idx2 w cfg urls)) = [urls]"
  "responses (trace (submitIndexNow_idx2 w cfg urls)) = []"
  "secondary_invoked (trace (submitIndexNow_idx2 w cfg urls)) = False"
  by (simp_all add: submitIndexNow_idx2_def js_simps Let_def
        split: fetch_outcome.splits sum.splits)

lemma submitToBing_trace:
  "batches (trace (submitToBing w cfg urls)) = [urls]"
  "responses (trace (submitToBing w cfg urls)) = []"
  "secondary_invoked (trace (submitToBing w cfg urls)) = False"
  by (simp_all add: submitToBing_def js_simps Let_def
        split: fetch_outcome.splits sum.splits option.splits)

lemma gsc_calls_trace:
  "batches (trace (gsc_calls w e k s f m)) = []"
  "responses (trace (gsc_calls w e k s f m)) = []"
  "secondary_invoked (trace (gsc_calls w e k s f m)) = False"
  by (simp_all add: gsc_calls_def js_simps split: option.splits sum.splits)

lemma submitSitemapToGSC_guarded_trace:
  "batches (trace (submitSitemapToGSC_guarded w c s f)) = []"
  "responses (trace (submitSitemapToGSC_guarded w c s f)) = []"
  "secondary_invoked (trace (submitSitemapToGSC_guarded w c s f)) = True"
  by (simp_all add: submitSitemapToGSC_guarded_def js_simps gsc_calls_trace
        split: option.splits sum.splits)

lemma submitSitemapToGSC_idx2_trace:
  "batches (trace (submitSitemapToGSC_idx2 w cfg)) = []"
  "responses (trace (submitSitemapToGSC_idx2 w cfg)) = []"
  "secondary_invoked (trace (submitSitemapToGSC_idx2 w cfg)) = True"
  by (simp_all add: submitSitemapToGSC_idx2_def js_simps gsc_calls_trace
        split: option.splits sum.splits)

lemmas provider_traces = submitIndexNow_idx1_trace submitIndexNow_idx2_trace submitToBing_trace
  submitSitemapToGSC_guarded_trace submitSitemapToGSC_idx2_trace
  submitSitemapToGSC_idx1_def submitSitemapToGSC_bing_def

lemma primary_ok_cases:
  "primary_ok Idx1 w cfg urls = (\<forall>e. outcome (submitIndexNow_idx1 w cfg urls) \<noteq> Inl e)"
  "primary_ok Idx2 w cfg urls = (\<forall>e. outcome (submitIndexNow_idx2 w cfg urls) \<noteq> Inl e)"
  "primary_ok Bing w cfg urls = (\<forall>e. outcome (submitToBing w cfg urls) \<noteq> Inl e)"
proof -
  show "primary_ok Idx1 w cfg urls = (\<forall>e. outcome (submitIndexNow_idx1 w cfg urls) \<noteq> Inl e)"
    by (simp add: unit_outcome)
  show "primary_ok Idx2 w cfg urls = (\<forall>e. outcome (submitIndexNow_idx2 w cfg urls) \<noteq> Inl e)"
    by (simp add: submitIndexNow_idx2_def js_simps Let_def split: fetch_outcome.splits sum.splits)
  show "primary_ok Bing w cfg urls = (\<forall>e. outcome (submitToBing w cfg urls) \<noteq> Inl e)"
    by (simp add: unit_outcome)
qed

section \<open>The resolver\<close>

lemma to_string_json_error:
  "to_string_json v = Inl e \<Longrightarrow> e = TypeError"
  "join_json xs = Inl e \<Longrightarrow> e = TypeError"
  "elem_string v' = Inl e \<Longrightarrow> e = TypeError"
  by (induction v and xs and v' rule: to_string_json_join_json_elem_string.induct)
     (auto split: if_splits sum.splits)

lemma to_string_error: "to_string h = Inl e \<Longrightarrow> e = TypeError"
  by (cases h) (auto dest: to_string_json_error)

lemma buildPublicUrl_nonempty: "buildPublicUrl topic payload = Inr (Some u) \<Longrightarrow> u \<noteq> []"
  by (auto simp: buildPublicUrl_def Let_def host_def url_if_handle_def split: if_splits sum.splits)

lemma buildPublicUrl_idx2_nonempty: "buildPublicUrl_idx2 topic payload = Inr (Some u) \<Longrightarrow> u \<noteq> []"
  by (auto simp: buildPublicUrl_idx2_def Let_def host_def split: if_splits sum.splits)

lemma resolve_nonempty: "resolve v topic payload = Inr (Some u) \<Longrightarrow> u \<noteq> []"
  by (cases v) (auto dest: buildPublicUrl_nonempty buildPublicUrl_idx2_nonempty)

lemma resolve_empty_topic: "resolve v [] p = Inr None"
  by (cases v) (simp_all add: buildPublicUrl_def buildPublicUrl_idx2_def Let_def)

lemma wants_sitemap_empty: "\<not> wants_sitemap []"
  by (simp add: wants_sitemap_def)

text \<open>The guarded resolver (\<^verbatim>\<open>index.js\<close> lines 41-58, \<^verbatim>\<open>part_000\<close> lines 56-77)
  returns none on every deletion topic and on every payload without a truthy handle, the
  \<^verbatim>\<open>null\<close> payload included.\<close>

lemma buildPublicUrl_delete:
  "endsWith topic ''delete'' \<Longrightarrow> buildPublicUrl topic payload = Inr None"
  by (simp add: buildPublicUrl_def)

lemma buildPublicUrl_no_handle:
  "\<not> truthy (opt_member payload ''handle'') \<Longrightarrow> buildPublicUrl topic payload = Inr None"
  by (simp add: buildPublicUrl_def url_if_handle_def Let_def)

lemma buildPublicUrl_null:
  "buildPublicUrl topic None = Inr None"
  "buildPublicUrl topic (Some JNull) = Inr None"
  "buildPublicUrl topic (Some (JObj [])) = Inr None"
  by (simp_all add: buildPublicUrl_no_handle)

text \<open>It raises only when the text of a handle cannot be built: a handle (or blog handle)
  that is, or as an array contains, an object with an own \<open>toString\<close> property.\<close>

lemma buildPublicUrl_raises:
  "buildPublicUrl topic payload = Inl e \<Longrightarrow>
     e = TypeError \<and> truthy (opt_member payload ''handle'')
     \<and> (to_string (opt_member payload ''handle'') = Inl TypeError
        \<or> to_string (opt_member (opt_member payload ''blog'') ''handle'') = Inl TypeError)"
  by (auto simp: buildPublicUrl_def url_if_handle_def Let_def
        split: if_splits sum.splits dest: to_string_error)

lemma buildPublicUrl_string_handle:
  "opt_member payload ''handle'' = Some (JStr h) \<Longrightarrow>
   opt_member (opt_member payload ''blog'') ''handle'' \<in> {None, Some (JStr b)} \<Longrightarrow>
     \<exists>u. buildPublicUrl topic payload = Inr u"
  by (auto simp: buildPublicUrl_def url_if_handle_def Let_def)

lemma buildPublicUrl_raises_example:
  "buildPublicUrl ''products/update''
     (Some (JObj [(''handle'', JObj [(''toString'', JNum ''1'')])])) = Inl TypeError"
  by (simp add: buildPublicUrl_def url_if_handle_def Let_def startsWith_def endsWith_def)

lemma buildPublicUrl_all_url:
  "buildPublicUrl topic payload = Inr (Some all_url) \<longleftrightarrow>
     startsWith topic ''collections/'' \<and> \<not> startsWith topic ''products/''
     \<and> \<not> endsWith topic ''delete''
     \<and> truthy (opt_member payload ''handle'')
     \<and> to_string (opt_member payload ''handle'') = Inr ''all''"
  by (auto simp: buildPublicUrl_def url_if_handle_def Let_def host_def all_url_def
        split: sum.splits)

text \<open>The resolver of \<^verbatim>\<open>index.js\<close> lines 198-207 builds a product URL from whatever
  \<^verbatim>\<open>payload.handle\<close> is, on every topic under \<open>products/\<close>, deletions included.\<close>

lemma buildPublicUrl_idx2_products:
  "startsWith topic ''products/'' \<Longrightarrow> get_member payload ''handle'' = Inr h \<Longrightarrow>
   to_string h = Inr s \<Longrightarrow>
     buildPublicUrl_idx2 topic payload = Inr (Some (host @ ''/products/'' @ s))"
  by (simp add: buildPublicUrl_idx2_def)

lemma buildPublicUrl_idx2_null:
  "startsWith topic ''products/'' \<or> startsWith topic ''collections/''
     \<or> startsWith topic ''articles/'' \<Longrightarrow>
   payload = None \<or> payload = Some JNull \<Longrightarrow>
     buildPublicUrl_idx2 topic payload = Inl TypeError"
  by (auto simp: buildPublicUrl_idx2_def)

section \<open>The verifiers\<close>

text \<open>The verifier of \<^verbatim>\<open>index.js\<close> throws on an absent secret and on a signature of
  another byte length than the digest.\<close>

lemma verifyShopifyHmac_idx_raises:
  "hmac_header req = Some h \<Longrightarrow> h \<noteq> [] \<Longrightarrow> SHOPIFY_WEBHOOK_SECRET cfg = None \<Longrightarrow>
     verifyShopifyHmac_idx w cfg req = Inl TypeError"
  "hmac_header req = Some h \<Longrightarrow> h \<noteq> [] \<Longrightarrow> SHOPIFY_WEBHOOK_SECRET cfg = Some k \<Longrightarrow>
   body req = Buffer bytes \<Longrightarrow>
     length (buffer_from (hmac_sha256_base64 w k bytes)) \<noteq> length (buffer_from h) \<Longrightarrow>
     verifyShopifyHmac_idx w cfg req = Inl RangeError"
  "hmac_header req = Some h \<Longrightarrow> h \<noteq> [] \<Longrightarrow> body req = Unparsed \<Longrightarrow>
     verifyShopifyHmac_idx w cfg req = Inl TypeError"
  by (simp_all add: verifyShopifyHmac_idx_def createHmac_digest_def timingSafeEqual_def
        split: option.splits)

text \<open>The verifier of \<^verbatim>\<open>part_000\<close> returns a boolean on every Buffer body, and returns
  false on an absent header, an absent secret and on different byte lengths. Its
  \<^verbatim>\<open>update\<close> call stands before the \<^verbatim>\<open>try\<close>: on a body the middleware left unparsed,
  with header and secret present, it throws as well, and the handler answers 500.\<close>

lemma verifyShopifyHmac_bing_total:
  "body req = Buffer bytes \<Longrightarrow> \<exists>b. verifyShopifyHmac_bing w cfg req = Inr b"
  by (auto simp: verifyShopifyHmac_bing_def createHmac_digest_def falsy_def timingSafeEqual_def
        split: option.splits sum.splits)

lemma verifyShopifyHmac_bing_false:
  "hmac_header req = None \<Longrightarrow> verifyShopifyHmac_bing w cfg req = Inr False"
  "SHOPIFY_WEBHOOK_SECRET cfg = None \<Longrightarrow> verifyShopifyHmac_bing w cfg req = Inr False"
  "hmac_header req = Some h \<Longrightarrow> SHOPIFY_WEBHOOK_SECRET cfg = Some k \<Longrightarrow>
   body req = Buffer bytes \<Longrightarrow>
     length (buffer_from (hmac_sha256_base64 w k bytes)) \<noteq> length (buffer_from h) \<Longrightarrow>
     verifyShopifyHmac_bing w cfg req = Inr False"
  by (auto simp: verifyShopifyHmac_bing_def createHmac_digest_def falsy_def timingSafeEqual_def
        split: option.splits sum.splits)

lemma verifyShopifyHmac_bing_raises:
  "verifyShopifyHmac_bing w cfg req = Inl e \<longleftrightarrow>
     e = TypeError \<and> \<not> falsy (hmac_header req) \<and> \<not> falsy (SHOPIFY_WEBHOOK_SECRET cfg)
     \<and> body req = Unparsed"
  by (auto simp: verifyShopifyHmac_bing_def createHmac_digest_def falsy_def timingSafeEqual_def
        split: option.splits sum.splits raw_body.splits if_splits)

lemma webhook_bing_unparsed_500:
  "verifyShopifyHmac_bing world_ok env_google unparsed_request = Inl TypeError
   \<and> responses (trace (webhook_bing world_ok env_google unparsed_request)) = [(500, ''ERROR'')]"
  by (simp add: run_defs unparsed_request_def)

text \<open>A request that verified has a Buffer body, so the handlers parse Buffers only.\<close>

lemma verified_body: "verify v w cfg req = Inr True \<Longrightarrow> \<exists>bytes. body req = Buffer bytes"
  by (cases v; cases "body req")
     (auto simp: verifyShopifyHmac_idx_def verifyShopifyHmac_bing_def createHmac_digest_def
        split: option.splits if_splits)

section \<open>The guarded sitemap provider\<close>

lemma submitSitemapToGSC_guarded_absent:
  "falsy credentials \<Longrightarrow>
     submitSitemapToGSC_guarded w credentials s f =
       ([Submit_secondary,
         Log Warn ''GOOGLE_CREDENTIALS_JSON not set; skipping GSC sitemap submit.''], Inr ())"
  by (auto simp: submitSitemapToGSC_guarded_def falsy_def js_seq_def js_bind_def emit_def)

section \<open>The handler\<close>

lemma batch_ok:
  assumes "verify v w cfg req = Inr True" and "parse_body w req = Inr payload"
    and "resolve v (topic_of req) (Some payload) = Inr url"
  shows "batches (trace (webhook v w cfg req)) = [build_urls url]"
  using assms
  by (cases v)
     (simp_all add: webhook_defs js_simps provider_traces Let_def split: sum.splits)

text \<open>In \<^verbatim>\<open>part_000\<close> a failing secondary call leaves the response at 200 and is logged
  as a warning.\<close>

lemma webhook_bing_secondary_isolated:
  assumes "verifyShopifyHmac_bing w cfg req = Inr True" and "parse_body w req = Inr payload"
    and "buildPublicUrl (topic_of req) (Some payload) = Inr url"
    and "outcome (submitToBing w cfg (build_urls url)) = Inr ()"
  shows "responses (trace (webhook_bing w cfg req)) = [(200, ''OK'')]"
    and "wants_sitemap (topic_of req) \<Longrightarrow> outcome (submitSitemapToGSC_bing w cfg) = Inl e \<Longrightarrow>
           Log Warn ''GSC submit warning'' \<in> set (trace (webhook_bing w cfg req))"
  using assms
  by (simp_all add: webhook_defs js_simps provider_traces Let_def split: sum.splits)

text \<open>In both revisions of \<^verbatim>\<open>index.js\<close> a failing secondary call is answered 500.\<close>

lemma webhook_idx1_secondary_fatal:
  assumes "verifyShopifyHmac_idx w cfg req = Inr True" and "parse_body w req = Inr payload"
    and "buildPublicUrl (topic_of req) (Some payload) = Inr url"
    and "outcome (submitIndexNow_idx1 w cfg (build_urls url)) = Inr ()"
    and "wants_sitemap (topic_of req)"
    and "outcome (submitSitemapToGSC_idx1 w cfg) = Inl e"
  shows "responses (trace (webhook_idx1 w cfg req)) = [(500, ''ERROR'')]"
  using assms
  by (simp add: webhook_defs js_simps provider_traces Let_def split: sum.splits)

lemma webhook_idx2_secondary_fatal:
  assumes "verifyShopifyHmac_idx w cfg req = Inr True" and "parse_body w req = Inr payload"
    and "buildPublicUrl_idx2 (topic_of req) (Some payload) = Inr url"
    and "outcome (submitIndexNow_idx2 w cfg (build_urls url)) = Inr True"
    and "wants_sitemap (topic_of req)"
    and "outcome (submitSitemapToGSC_idx2 w cfg) = Inl e"
  shows "responses (trace (webhook_idx2 w cfg req)) = [(500, ''ERROR'')]"
  using assms
  by (simp add: webhook_defs js_simps provider_traces Let_def split: sum.splits)

section \<open>The claims\<close>

text \<open>
  C1. For every verified event whose primary provider call succeeds, a failure of the
  secondary sitemap call leaves the response at 200 and is only logged. The two revisions of
  \<^verbatim>\<open>index.js\<close> do not do this: the secondary call sits in the handler's only
  \<^verbatim>\<open>try\<close> block, so a verified \<open>products/create\<close> event whose IndexNow call succeeds and
  whose sitemap call is rejected is answered 500. \<^verbatim>\<open>part_000\<close>, which wraps the call in its
  own \<^verbatim>\<open>try/catch\<close>, answers 200 on the same input.
\<close>

theorem webhook_idx_secondary_failure_500:
  "verify Idx1 world_gsc_down env_google created_widget = Inr True
   \<and> primary_ok Idx1 world_gsc_down env_google
        [''https://titandepot.co.uk/products/widget'', root_url, all_url]
   \<and> outcome (submit_secondary Idx1 world_gsc_down env_google) = Inl (Rejected ''quota'')
   \<and> responses (trace (webhook Idx1 world_gsc_down env_google created_widget)) = [(500, ''ERROR'')]
   \<and> responses (trace (webhook Idx2 world_gsc_down env_google created_widget)) = [(500, ''ERROR'')]
   \<and> responses (trace (webhook Bing world_gsc_down env_google created_widget)) = [(200, ''OK'')]"
  by (simp add: run_defs)

text \<open>
  C2. The signature verifier returns a boolean and never throws; it returns false on an
  absent header, an unconfigured secret and on different byte lengths. The verifier of
  \<^verbatim>\<open>index.js\<close> throws instead: a TypeError from \<^verbatim>\<open>createHmac\<close> when the secret is
  absent, a RangeError from \<^verbatim>\<open>timingSafeEqual\<close> when the header has another length than
  the digest (here 3 bytes against 44), and the handler then answers 500, not 401.
\<close>

theorem verifyShopifyHmac_idx_throws:
  "verifyShopifyHmac_idx w (cfg\<lparr>SHOPIFY_WEBHOOK_SECRET := None\<rparr>)
       (req\<lparr>hmac_header := Some ''abc''\<rparr>) = Inl TypeError
   \<and> verifyShopifyHmac_idx world_ok env_google short_signature = Inl RangeError
   \<and> responses (trace (webhook Idx1 world_ok env_google short_signature)) = [(500, ''ERROR'')]
   \<and> verifyShopifyHmac_bing world_ok env_google short_signature = Inr False"
  by (simp add: run_defs short_signature_def)

text \<open>
  C3. For every topic that ends with \<open>delete\<close> and every payload the resolver returns none.
  The resolver of \<^verbatim>\<open>index.js\<close> lines 198-207 has no deletion test: on
  \<open>products/delete\<close> with handle \<open>widget\<close> it returns the product URL. The other two
  resolvers return none there (\<open>buildPublicUrl_delete\<close>).
\<close>

theorem buildPublicUrl_idx2_delete:
  "endsWith ''products/delete'' ''delete''
   \<and> buildPublicUrl_idx2 ''products/delete'' (Some (JObj [(''handle'', JStr ''widget'')]))
       = Inr (Some ''https://titandepot.co.uk/products/widget'')
   \<and> buildPublicUrl ''products/delete'' (Some (JObj [(''handle'', JStr ''widget'')])) = Inr None"
  by (simp add: run_defs)

text \<open>
  C4. The resolver never raises, and a missing handle in a matched branch yields none rather
  than an exception or a URL with an undefined segment. The resolver of \<^verbatim>\<open>index.js\<close>
  lines 198-207 raises a TypeError on a \<^verbatim>\<open>null\<close> or absent payload, and on a payload
  without handle it returns a URL ending in \<open>undefined\<close>. The other two resolvers return
  none on all three inputs (\<open>buildPublicUrl_null\<close>).
\<close>

theorem buildPublicUrl_idx2_partial:
  "buildPublicUrl_idx2 ''products/update'' (Some JNull) = Inl TypeError
   \<and> buildPublicUrl_idx2 ''products/update'' None = Inl TypeError
   \<and> buildPublicUrl_idx2 ''products/update'' (Some (JObj []))
       = Inr (Some ''https://titandepot.co.uk/products/undefined'')
   \<and> buildPublicUrl_idx2 ''articles/update'' (Some (JObj [(''blog'', JObj [])]))
       = Inr (Some ''https://titandepot.co.uk/blogs/news/undefined'')"
  by (simp add: run_defs)

text \<open>
  C5. When \<^verbatim>\<open>GOOGLE_CREDENTIALS_JSON\<close> is absent, the sitemap provider is a successful
  no-op that logs a warning. \<^verbatim>\<open>submitSitemapToGSC\<close> of \<^verbatim>\<open>index.js\<close> lines 230-246 has
  no such test: it parses the absent variable and throws a SyntaxError, and a verified
  \<open>products/create\<close> event is then answered 500. The other two revisions skip with a
  warning (\<open>submitSitemapToGSC_guarded_absent\<close>).
\<close>

theorem submitSitemapToGSC_idx2_absent:
  "outcome (submitSitemapToGSC_idx2 w (cfg\<lparr>GOOGLE_CREDENTIALS_JSON := None\<rparr>)) = Inl SyntaxError
   \<and> trace (submitSitemapToGSC_idx2 w (cfg\<lparr>GOOGLE_CREDENTIALS_JSON := None\<rparr>)) = [Submit_secondary]
   \<and> responses (trace (webhook Idx2 world_ok env_no_google created_widget)) = [(500, ''ERROR'')]
   \<and> responses (trace (webhook Idx1 world_ok env_no_google created_widget)) = [(200, ''OK'')]"
proof -
  have "outcome (submitSitemapToGSC_idx2 w (cfg\<lparr>GOOGLE_CREDENTIALS_JSON := None\<rparr>))
          = Inl SyntaxError"
    by (simp add: submitSitemapToGSC_idx2_def js_simps)
  moreover have "trace (submitSitemapToGSC_idx2 w (cfg\<lparr>GOOGLE_CREDENTIALS_JSON := None\<rparr>))
          = [Submit_secondary]"
    by (simp add: submitSitemapToGSC_idx2_def js_simps)
  moreover have "responses (trace (webhook Idx2 world_ok env_no_google created_widget))
          = [(500, ''ERROR'')]"
    by (simp add: run_defs env_no_google_def)
  moreover have "responses (trace (webhook Idx1 world_ok env_no_google created_widget))
          = [(200, ''OK'')]"
    by (simp add: run_defs env_no_google_def)
  ultimately show ?thesis by simp
qed

text \<open>
  C6, as stated: for every verified, well-formed event the secondary submission is invoked
  if and only if the topic ends in \<open>create\<close> or starts with \<open>collections/\<close>. This fails
  when the primary call fails: a verified, well-formed \<open>products/create\<close> event whose
  IndexNow call is answered 503 never reaches the secondary call.
\<close>

theorem secondary_invoked_counterexample:
  "verify Idx1 world_primary_down env_google created_widget = Inr True
   \<and> parse_body world_primary_down created_widget = Inr (JObj [(''handle'', JStr ''widget'')])
   \<and> endsWith (topic_of created_widget) ''create''
   \<and> \<not> secondary_invoked (trace (webhook Idx1 world_primary_down env_google created_widget))"
  by (simp add: run_defs)

text \<open>
  C6, amended: for every verified, well-formed event, in every revision, the secondary
  submission is invoked if and only if the primary submission was made and returned without
  error and the topic ends in \<open>create\<close> or starts with \<open>collections/\<close>; it is never
  invoked for \<open>products/update\<close>.
\<close>

theorem secondary_invoked_iff:
  assumes "verify v w cfg req = Inr True" and "parse_body w req = Inr payload"
  shows "(secondary_invoked (trace (webhook v w cfg req)) \<longleftrightarrow>
            (\<exists>url. resolve v (topic_of req) (Some payload) = Inr url
                   \<and> primary_ok v w cfg (build_urls url))
            \<and> (endsWith (topic_of req) ''create'' \<or> startsWith (topic_of req) ''collections/''))
         \<and> (topic_of req = ''products/update'' \<longrightarrow>
              \<not> secondary_invoked (trace (webhook v w cfg req)))"
proof -
  have a: "secondary_invoked (trace (webhook v w cfg req)) \<longleftrightarrow>
            (\<exists>url. resolve v (topic_of req) (Some payload) = Inr url
                   \<and> primary_ok v w cfg (build_urls url))
            \<and> wants_sitemap (topic_of req)"
    using assms
    by (cases v)
       (auto simp: webhook_defs js_simps provider_traces Let_def primary_ok_cases
          simp del: primary_ok.simps split: sum.splits)
  have b: "\<not> wants_sitemap ''products/update''"
    by (simp add: wants_sitemap_def endsWith_def startsWith_def)
  show ?thesis using a b by (auto simp: wants_sitemap_def)
qed

theorem secondary_invoked_iff_witness:
  "verify Bing world_ok env_google created_widget = Inr True
   \<and> parse_body world_ok created_widget = Inr (JObj [(''handle'', JStr ''widget'')])
   \<and> secondary_invoked (trace (webhook Bing world_ok env_google created_widget))
   \<and> verify Idx1 world_ok env_google (created_widget\<lparr>topic_header := Some ''products/update''\<rparr>)
       = Inr True
   \<and> \<not> secondary_invoked (trace (webhook Idx1 world_ok env_google
         (created_widget\<lparr>topic_header := Some ''products/update''\<rparr>)))"
proof -
  let ?p = "JObj [(''handle'', JStr ''widget'')]"
  let ?u = "created_widget\<lparr>topic_header := Some ''products/update''\<rparr>"
  have v1: "verify Bing world_ok env_google created_widget = Inr True"
    by (simp add: run_defs)
  have p1: "parse_body world_ok created_widget = Inr ?p"
    by (simp add: run_defs)
  have r1: "resolve Bing (topic_of created_widget) (Some ?p)
              = Inr (Some ''https://titandepot.co.uk/products/widget'')"
    by (simp add: run_defs)
  have k1: "primary_ok Bing world_ok env_google
              (build_urls (Some ''https://titandepot.co.uk/products/widget''))"
    by (simp add: run_defs)
  have t1: "endsWith (topic_of created_widget) ''create''"
    by (simp add: run_defs)
  have v2: "verify Idx1 world_ok env_google ?u = Inr True"
    by (simp add: run_defs)
  have p2: "parse_body world_ok ?u = Inr ?p"
    by (simp add: run_defs)
  have t2: "topic_of ?u = ''products/update''"
    by (simp add: topic_of_def)
  have "secondary_invoked (trace (webhook Bing world_ok env_google created_widget))"
    using secondary_invoked_iff [OF v1 p1] r1 k1 t1 by blast
  moreover have "\<not> secondary_invoked (trace (webhook Idx1 world_ok env_google ?u))"
    using secondary_invoked_iff [OF v2 p2] t2 by blast
  ultimately show ?thesis using v1 p1 v2 by blast
qed

text \<open>
  C7, as stated: on every firing of the daily job the sitemap provider is invoked, even when
  the instant-submit call fails. This fails: both calls sit in one \<^verbatim>\<open>try\<close> block, and
  when IndexNow answers 503 the sitemap provider is not invoked.
\<close>

theorem daily_job_counterexample:
  "\<not> primary_ok Idx1 world_primary_down env_google [root_url, sitemap_url]
   \<and> \<not> secondary_invoked (trace (daily_job Idx1 world_primary_down env_google))"
  by (simp add: run_defs)

text \<open>
  C7, amended: on every firing of the daily job, in every revision, the sitemap provider is
  invoked if and only if the instant-submit call for the static two-URL batch returned
  without error; a failure of either call is caught and logged as \<open>Daily job failed\<close>, and
  the job itself never throws.
\<close>

theorem daily_job_caught:
  "outcome (daily_job v w cfg) = Inr ()
   \<and> (secondary_invoked (trace (daily_job v w cfg))
        \<longleftrightarrow> primary_ok v w cfg [root_url, sitemap_url])
   \<and> (\<not> primary_ok v w cfg [root_url, sitemap_url]
        \<or> outcome (submit_secondary v w cfg) \<noteq> Inr ()
        \<longrightarrow> Log Err ''Daily job failed'' \<in> set (trace (daily_job v w cfg)))"
  by (cases v)
     (auto simp: daily_defs js_simps provider_traces primary_ok_cases unit_outcome
        simp del: primary_ok.simps split: sum.splits)

theorem daily_job_caught_witness:
  "primary_ok Idx1 world_gsc_down env_google [root_url, sitemap_url]
   \<and> outcome (submit_secondary Idx1 world_gsc_down env_google) \<noteq> Inr ()
   \<and> secondary_invoked (trace (daily_job Idx1 world_gsc_down env_google))
   \<and> Log Err ''Daily job failed'' \<in> set (trace (daily_job Idx1 world_gsc_down env_google))
   \<and> outcome (daily_job Idx1 world_gsc_down env_google) = Inr ()"
proof -
  have k: "primary_ok Idx1 world_gsc_down env_google [root_url, sitemap_url]"
    by (simp add: run_defs)
  have f: "outcome (submit_secondary Idx1 world_gsc_down env_google) \<noteq> Inr ()"
    by (simp add: run_defs)
  show ?thesis
    using daily_job_caught [of Idx1 world_gsc_down env_google] k f by blast
qed

text \<open>On a signed \<^verbatim>\<open>null\<close> body under \<open>products/update\<close> the resolver of
  \<^verbatim>\<open>index.js\<close> lines 198-207 throws, so that revision passes no batch and answers 500; the
  other two submit the two anchors and answer 200.\<close>

lemma webhook_null_payload:
  "verify Idx2 world_ok env_google null_product_update = Inr True
   \<and> parse_body world_ok null_product_update = Inr JNull
   \<and> batches (trace (webhook Idx2 world_ok env_google null_product_update)) = []
   \<and> responses (trace (webhook Idx2 world_ok env_google null_product_update)) = [(500, ''ERROR'')]
   \<and> batches (trace (webhook Idx1 world_ok env_google null_product_update))
       = [[root_url, all_url]]
   \<and> batches (trace (webhook Bing world_ok env_google null_product_update))
       = [[root_url, all_url]]"
  by (simp add: run_defs null_product_update_def)

text \<open>
  C8. For every verified, well-formed event, in every revision, every batch passed to the
  primary provider contains the site root and the \<open>/collections/all\<close> URL. Exactly one
  batch is passed when the resolver returns: the two anchors when it returns none, the
  resolved URL followed by the two anchors when it returns a URL. No batch is passed when the
  resolver throws (the event is then answered 500 before the primary call).
\<close>

theorem batch_has_anchors:
  assumes "verify v w cfg req = Inr True" and "parse_body w req = Inr payload"
  shows "batches (trace (webhook v w cfg req)) =
           (case resolve v (topic_of req) (Some payload) of
              Inl e \<Rightarrow> []
            | Inr url \<Rightarrow>
                [(case url of None \<Rightarrow> [] | Some u \<Rightarrow> [u])
                   @ [''https://titandepot.co.uk/'', ''https://titandepot.co.uk/collections/all'']])
         \<and> (\<forall>b \<in> set (batches (trace (webhook v w cfg req))).
               ''https://titandepot.co.uk/'' \<in> set b
               \<and> ''https://titandepot.co.uk/collections/all'' \<in> set b)"
proof (cases "resolve v (topic_of req) (Some payload)")
  case (Inl e)
  have "batches (trace (webhook v w cfg req)) = []"
    using assms Inl
    by (cases v)
       (simp_all add: webhook_defs js_simps provider_traces Let_def split: sum.splits)
  with Inl show ?thesis by simp
next
  case (Inr url)
  have "build_urls url =
          (case url of None \<Rightarrow> [] | Some u \<Rightarrow> [u])
            @ [''https://titandepot.co.uk/'', ''https://titandepot.co.uk/collections/all'']"
    using resolve_nonempty [of v "topic_of req" "Some payload"] Inr
    by (auto simp: build_urls_def root_url_def all_url_def split: option.splits)
  with batch_ok [OF assms Inr] Inr show ?thesis by simp
qed

theorem batch_has_anchors_witness:
  "verify Bing world_ok env_google created_widget = Inr True
   \<and> parse_body world_ok created_widget = Inr (JObj [(''handle'', JStr ''widget'')])
   \<and> batches (trace (webhook Bing world_ok env_google created_widget))
       = [[''https://titandepot.co.uk/products/widget'', ''https://titandepot.co.uk/'',
           ''https://titandepot.co.uk/collections/all'']]
   \<and> verify Idx1 world_ok env_google event_without_topic = Inr True
   \<and> parse_body world_ok event_without_topic = Inr (JObj [])
   \<and> batches (trace (webhook Idx1 world_ok env_google event_without_topic))
       = [[''https://titandepot.co.uk/'', ''https://titandepot.co.uk/collections/all'']]
   \<and> verify Idx2 world_ok env_google null_product_update = Inr True
   \<and> parse_body world_ok null_product_update = Inr JNull
   \<and> batches (trace (webhook Idx2 world_ok env_google null_product_update)) = []"
proof -
  have v1: "verify Bing world_ok env_google created_widget = Inr True"
    by (simp add: run_defs)
  have p1: "parse_body world_ok created_widget = Inr (JObj [(''handle'', JStr ''widget'')])"
    by (simp add: run_defs)
  have r1: "resolve Bing (topic_of created_widget) (Some (JObj [(''handle'', JStr ''widget'')]))
              = Inr (Some ''https://titandepot.co.uk/products/widget'')"
    by (simp add: run_defs)
  have v2: "verify Idx1 world_ok env_google event_without_topic = Inr True"
    by (simp add: run_defs)
  have p2: "parse_body world_ok event_without_topic = Inr (JObj [])"
    by (simp add: run_defs)
  have r2: "resolve Idx1 (topic_of event_without_topic) (Some (JObj [])) = Inr None"
    by (simp add: run_defs)
  have v3: "verify Idx2 world_ok env_google null_product_update = Inr True"
    by (simp add: run_defs null_product_update_def)
  have p3: "parse_body world_ok null_product_update = Inr JNull"
    by (simp add: run_defs null_product_update_def)
  have r3: "resolve Idx2 (topic_of null_product_update) (Some JNull) = Inl TypeError"
    by (simp add: run_defs null_product_update_def)
  show ?thesis
    using batch_has_anchors [OF v1 p1] batch_has_anchors [OF v2 p2] batch_has_anchors [OF v3 p3]
      v1 p1 r1 v2 p2 r2 v3 p3 r3
    by simp
qed

text \<open>
  C9, as stated: no URL appears twice in a batch, also when the resolved URL is one of the
  anchors. This fails: nothing removes duplicates, and a verified \<open>collections/update\<close>
  event with handle \<open>all\<close> submits the \<open>/collections/all\<close> URL twice.
\<close>

theorem batch_distinct_counterexample:
  "verify Idx1 world_ok env_google updated_collection_all = Inr True
   \<and> batches (trace (webhook Idx1 world_ok env_google updated_collection_all))
       = [[''https://titandepot.co.uk/collections/all'', ''https://titandepot.co.uk/'',
           ''https://titandepot.co.uk/collections/all'']]
   \<and> \<not> distinct [''https://titandepot.co.uk/collections/all'', ''https://titandepot.co.uk/'',
           ''https://titandepot.co.uk/collections/all'']"
  by (simp add: run_defs updated_collection_all_def)

text \<open>
  C9, amended: every batch built by the handler is the resolved URL (if any) followed by the
  two anchor URLs, which differ from each other; its URLs are distinct if and only if the
  resolved URL is not the \<open>/collections/all\<close> URL.
\<close>

theorem batch_distinct_iff:
  assumes "verify v w cfg req = Inr True" and "parse_body w req = Inr payload"
    and "resolve v (topic_of req) (Some payload) = Inr url"
  shows "batches (trace (webhook v w cfg req)) = [build_urls url]
         \<and> root_url \<noteq> all_url
         \<and> (distinct (build_urls url) \<longleftrightarrow> url \<noteq> Some all_url)"
proof -
  have n: "u \<noteq> root_url" if "url = Some u" for u
    using assms(3) that
    by (cases v)
       (auto simp: buildPublicUrl_def buildPublicUrl_idx2_def url_if_handle_def Let_def host_def
          root_url_def split: if_splits sum.splits)
  have "distinct (build_urls url) \<longleftrightarrow> url \<noteq> Some all_url"
    using n resolve_nonempty [of v "topic_of req" "Some payload"] assms(3)
    by (cases url) (auto simp: build_urls_def root_url_def all_url_def)
  then show ?thesis using batch_ok [OF assms] by (simp add: root_url_def all_url_def)
qed

theorem batch_distinct_iff_witness:
  "verify Bing world_ok env_google created_widget = Inr True
   \<and> parse_body world_ok created_widget = Inr (JObj [(''handle'', JStr ''widget'')])
   \<and> resolve Bing (topic_of created_widget) (Some (JObj [(''handle'', JStr ''widget'')]))
       = Inr (Some ''https://titandepot.co.uk/products/widget'')
   \<and> batches (trace (webhook Bing world_ok env_google created_widget))
       = [build_urls (Some ''https://titandepot.co.uk/products/widget'')]
   \<and> distinct (build_urls (Some ''https://titandepot.co.uk/products/widget''))"
proof -
  have v1: "verify Bing world_ok env_google created_widget = Inr True"
    by (simp add: run_defs)
  have p1: "parse_body world_ok created_widget = Inr (JObj [(''handle'', JStr ''widget'')])"
    by (simp add: run_defs)
  have r1: "resolve Bing (topic_of created_widget) (Some (JObj [(''handle'', JStr ''widget'')]))
              = Inr (Some ''https://titandepot.co.uk/products/widget'')"
    by (simp add: run_defs)
  have d: "Some ''https://titandepot.co.uk/products/widget'' \<noteq> Some all_url"
    by (simp add: all_url_def)
  show ?thesis
    using batch_distinct_iff [OF v1 p1 r1] v1 p1 r1 d by blast
qed

text \<open>
  C10. For every correctly signed request without topic header, in every revision, the
  topic is the empty string: no URL is resolved, the secondary submission is not invoked,
  and when the body parses and the primary submission succeeds the response is 200 and the
  batch is exactly the two anchor URLs.
\<close>

theorem absent_topic:
  assumes "verify v w cfg req = Inr True" and "topic_header req = None"
  shows "topic_of req = [] \<and> resolve v (topic_of req) p = Inr None
         \<and> \<not> secondary_invoked (trace (webhook v w cfg req))
         \<and> (parse_body w req = Inr payload \<and> primary_ok v w cfg [root_url, all_url] \<longrightarrow>
              responses (trace (webhook v w cfg req)) = [(200, ''OK'')]
              \<and> batches (trace (webhook v w cfg req)) = [[root_url, all_url]])"
proof -
  have t: "topic_of req = []"
    using assms(2) by (simp add: topic_of_def)
  have s: "\<not> secondary_invoked (trace (webhook v w cfg req))"
    using assms(1) t
    by (cases v)
       (simp_all add: webhook_defs js_simps provider_traces Let_def wants_sitemap_empty
          split: sum.splits)
  have r: "responses (trace (webhook v w cfg req)) = [(200, ''OK'')]
           \<and> batches (trace (webhook v w cfg req)) = [[root_url, all_url]]"
    if "parse_body w req = Inr payload" "primary_ok v w cfg [root_url, all_url]"
    using assms(1) t that
    by (cases v)
       (simp_all add: webhook_defs js_simps provider_traces Let_def wants_sitemap_empty
          resolve_empty_topic [of Idx1, simplified] resolve_empty_topic [of Idx2, simplified]
          build_urls_def split: sum.splits)
  show ?thesis using t s r by (simp add: resolve_empty_topic)
qed

theorem absent_topic_witness:
  "verify Idx2 world_ok env_google event_without_topic = Inr True
   \<and> topic_header event_without_topic = None
   \<and> parse_body world_ok event_without_topic = Inr (JObj [])
   \<and> primary_ok Idx2 world_ok env_google [root_url, all_url]
   \<and> \<not> secondary_invoked (trace (webhook Idx2 world_ok env_google event_without_topic))
   \<and> responses (trace (webhook Idx2 world_ok env_google event_without_topic)) = [(200, ''OK'')]
   \<and> batches (trace (webhook Idx2 world_ok env_google event_without_topic))
       = [[root_url, all_url]]"
proof -
  have v1: "verify Idx2 world_ok env_google event_without_topic = Inr True"
    by (simp add: run_defs)
  have h1: "topic_header event_without_topic = None"
    by (simp add: run_defs)
  have p1: "parse_body world_ok event_without_topic = Inr (JObj [])"
    by (simp add: run_defs)
  have k1: "primary_ok Idx2 world_ok env_google [root_url, all_url]"
    by (simp add: run_defs)
  show ?thesis
    using absent_topic [OF v1 h1, of "Some (JObj [])" "JObj []"] v1 h1 p1 k1 by blast
qed

end
